theory Spec2Isabelle
  imports Main
begin

section \<open>Pointers, exceptions and the host\<close>

text \<open>
  A shallow embedding of \<^verbatim>\<open>cppfmu_common.hpp\<close>. Object pointers and function pointers
  are addresses; address \<open>0\<close> is \<^verbatim>\<open>nullptr\<close>. Values of \<^verbatim>\<open>std::size_t\<close> are natural
  numbers: the header compares them with zero and passes them on, it never computes
  with them.
\<close>

type_synonym addr = nat

abbreviation (input) nullptr :: addr where
  "nullptr \<equiv> 0"

text \<open>
  Modelled from the spec: \<^verbatim>\<open>fmiFunctions.h\<close> is not among the sources. Its status codes
  and strings are opaque values the header only passes through to the host's logger;
  \<^verbatim>\<open>fmiStatus\<close> is a C enumeration, \<^verbatim>\<open>fmiComponent\<close> a \<^verbatim>\<open>void*\<close>, \<^verbatim>\<open>fmiString\<close> a
  character sequence, and the callback structure holds the three function pointers.
\<close>

type_synonym fmiStatus = int
type_synonym fmiComponent = addr
type_synonym fmiString = string

record fmiCallbackFunctions =
  logger :: addr
  allocateMemory :: addr
  freeMemory :: addr

subsection \<open>Exceptions\<close>

text \<open>
  An exception object is its dynamic class and its message. The classes are the ones
  the header names (\<^verbatim>\<open>std::bad_alloc\<close>, \<^verbatim>\<open>std::runtime_error\<close>, \<^verbatim>\<open>FatalError\<close>), their
  common base, and the classes of the model code, which may throw what it likes from a
  constructor: \<open>user_class k\<close> is a class (or other type) without a base, and
  \<open>derived_class k b\<close> a class publicly derived from \<open>b\<close>, which may be any class here,
  \<^verbatim>\<open>FatalError\<close> included.
\<close>

datatype exn_class =
    std_exception
  | std_bad_alloc
  | std_runtime_error
  | cppfmu_FatalError
  | user_class nat
  | derived_class nat exn_class

datatype exn = Exn (dynamic_class: exn_class) (what: string)

text \<open>
  The class itself and its public bases, nearest first:
  \<^verbatim>\<open>class FatalError : public std::runtime_error\<close>.
\<close>

fun bases :: "exn_class \<Rightarrow> exn_class list" where
  "bases cppfmu_FatalError = [cppfmu_FatalError, std_runtime_error, std_exception]"
| "bases std_runtime_error = [std_runtime_error, std_exception]"
| "bases std_bad_alloc = [std_bad_alloc, std_exception]"
| "bases std_exception = [std_exception]"
| "bases (user_class k) = [user_class k]"
| "bases (derived_class k b) = derived_class k b # bases b"


text \<open>\<^verbatim>\<open>FatalError(const char* msg) : std::runtime_error{msg}\<close>\<close>

definition FatalError :: "string \<Rightarrow> exn" where
  "FatalError msg = Exn cppfmu_FatalError msg"

text \<open>\<^verbatim>\<open>std::bad_alloc()\<close>\<close>

definition bad_alloc :: exn where
  "bad_alloc = Exn std_bad_alloc ''std::bad_alloc''"

subsection \<open>The host and the world\<close>

text \<open>
  The simulation environment is the code behind the function pointers: calling the
  function at an address acts on the environment's own state \<open>'s\<close>. The callbacks are C
  functions, so they return and do not throw. The same state is what constructors and
  destructors of model classes act on. The pack \<^verbatim>\<open>Args&&... args\<close> that the logger
  functions forward is a value of any type \<open>'v\<close>. An \<^verbatim>\<open>fmiString\<close> argument is a pointer
  the header passes on without reading it; the model passes on the characters it
  points to.
\<close>

record ('v, 's) host_env =
  call_allocate :: "addr \<Rightarrow> nat \<Rightarrow> nat \<Rightarrow> 's \<Rightarrow> addr \<times> 's"
  call_free :: "addr \<Rightarrow> addr \<Rightarrow> 's \<Rightarrow> 's"
  call_logger :: "addr \<Rightarrow> fmiComponent \<Rightarrow> fmiString \<Rightarrow> fmiStatus \<Rightarrow> fmiString \<Rightarrow> fmiString
                    \<Rightarrow> 'v \<Rightarrow> 's \<Rightarrow> 's"

text \<open>
  The calls the header's functions make, in the order they make them: the host's
  callbacks with their arguments, and constructor and destructor runs.
\<close>

datatype 'v event =
    AllocateMemory addr nat nat
  | FreeMemory addr addr
  | LoggerCall addr fmiComponent fmiString fmiStatus fmiString fmiString 'v
  | Construct addr
  | Destroy addr

text \<open>
  The world: the environment's state, the boolean cells owned through
  \<^verbatim>\<open>std::shared_ptr<bool>\<close>, and the log of calls made so far.
\<close>

record ('v, 's) world =
  host :: 's
  bools :: "addr \<Rightarrow> bool"
  trace :: "'v event list"

text \<open>
  What the templates use of a type \<open>T\<close>: \<^verbatim>\<open>sizeof(T)\<close>, its constructors (selected by the
  forwarded arguments \<open>'a\<close>; \<open>Some e\<close> when the constructor throws \<open>e\<close>) and its
  destructor. The destructor does not throw: a C++11 destructor is \<^verbatim>\<open>noexcept\<close> unless
  declared otherwise, and \<^verbatim>\<open>Delete\<close>, itself \<^verbatim>\<open>noexcept\<close>, relies on that.
\<close>

record ('a, 's) cpp_type =
  sizeof :: nat
  constructor :: "'a \<Rightarrow> addr \<Rightarrow> 's \<Rightarrow> exn option \<times> 's"
  destructor :: "addr \<Rightarrow> 's \<Rightarrow> 's"

section \<open>Memory\<close>

record Memory =
  m_alloc :: addr
  m_free :: addr

definition Memory_ctor :: "fmiCallbackFunctions \<Rightarrow> Memory" where
  "Memory_ctor callbackFunctions =
     \<lparr>m_alloc = allocateMemory callbackFunctions, m_free = freeMemory callbackFunctions\<rparr>"

text \<open>\<^verbatim>\<open>void* Alloc(std::size_t nObj, std::size_t size) noexcept { return m_alloc(nObj, size); }\<close>\<close>

definition Alloc :: "('v, 's) host_env \<Rightarrow> Memory \<Rightarrow> nat \<Rightarrow> nat \<Rightarrow> ('v, 's) world \<Rightarrow> addr \<times> ('v, 's) world" where
  "Alloc H this nObj size' w =
     (case call_allocate H (m_alloc this) nObj size' (host w) of
        (p, s) \<Rightarrow> (p, w\<lparr>host := s, trace := trace w @ [AllocateMemory (m_alloc this) nObj size']\<rparr>))"

text \<open>\<^verbatim>\<open>void Free(void* ptr) noexcept { m_free(ptr); }\<close>\<close>

definition Free :: "('v, 's) host_env \<Rightarrow> Memory \<Rightarrow> addr \<Rightarrow> ('v, 's) world \<Rightarrow> ('v, 's) world" where
  "Free H this ptr w =
     w\<lparr>host := call_free H (m_free this) ptr (host w),
       trace := trace w @ [FreeMemory (m_free this) ptr]\<rparr>"

definition Memory_eq :: "Memory \<Rightarrow> Memory \<Rightarrow> bool" where
  "Memory_eq this rhs = (m_alloc this = m_alloc rhs \<and> m_free this = m_free rhs)"

definition Memory_neq :: "Memory \<Rightarrow> Memory \<Rightarrow> bool" where
  "Memory_neq this rhs = (\<not> Memory_eq this rhs)"

section \<open>Allocator\<close>

text \<open>
  \<^verbatim>\<open>Allocator<T>\<close> holds a \<open>Memory\<close>; the template argument is kept as \<open>value_type\<close>.
\<close>

record ('a, 's) Allocator =
  value_type :: "('a, 's) cpp_type"
  m_memory :: Memory

text \<open>\<^verbatim>\<open>explicit Allocator(const Memory& memory) : m_memory{memory} { }\<close>\<close>

definition Allocator_ctor :: "('a, 's) cpp_type \<Rightarrow> Memory \<Rightarrow> ('a, 's) Allocator" where
  "Allocator_ctor T memory = \<lparr>value_type = T, m_memory = memory\<rparr>"

text \<open>
  \<^verbatim>\<open>template<typename U> Allocator(const Allocator<U>& other) : m_memory{other.m_memory}\<close>:
  the constructor behind \<^verbatim>\<open>rebind\<close>, here building an \<^verbatim>\<open>Allocator<T>\<close> from an \<^verbatim>\<open>Allocator<U>\<close>.
\<close>

definition Allocator_rebind ::
  "('a, 's) cpp_type \<Rightarrow> ('b, 's) Allocator \<Rightarrow> ('a, 's) Allocator" where
  "Allocator_rebind T other = \<lparr>value_type = T, m_memory = m_memory other\<rparr>"

definition allocate ::
  "('v, 's) host_env \<Rightarrow> ('a, 's) Allocator \<Rightarrow> nat \<Rightarrow> ('v, 's) world \<Rightarrow> (exn + addr) \<times> ('v, 's) world" where
  "allocate H this n w =
     (if n = 0 then (Inr nullptr, w)
      else case Alloc H (m_memory this) n (sizeof (value_type this)) w of
        (m, w') \<Rightarrow> if m \<noteq> nullptr then (Inr m, w') else (Inl bad_alloc, w'))"

definition deallocate ::
  "('v, 's) host_env \<Rightarrow> ('a, 's) Allocator \<Rightarrow> addr \<Rightarrow> nat \<Rightarrow> ('v, 's) world \<Rightarrow> ('v, 's) world" where
  "deallocate H this p n w = (if n > 0 then Free H (m_memory this) p w else w)"

text \<open>
  \<^verbatim>\<open>operator==\<close> and \<^verbatim>\<open>operator!=\<close> compare the memory handles. The right operand may
  be an allocator for another element type: C++ converts it with the constructor above,
  which keeps its memory handle.
\<close>

definition Allocator_eq :: "('a, 's) Allocator \<Rightarrow> ('b, 's) Allocator \<Rightarrow> bool" where
  "Allocator_eq this rhs = Memory_eq (m_memory this) (m_memory rhs)"

definition Allocator_neq :: "('a, 's) Allocator \<Rightarrow> ('b, 's) Allocator \<Rightarrow> bool" where
  "Allocator_neq this rhs = (\<not> Allocator_eq this rhs)"

text \<open>
  The members \<^verbatim>\<open>construct\<close> and \<^verbatim>\<open>destroy\<close> that \<^verbatim>\<open>New\<close> and \<^verbatim>\<open>Delete\<close> call; the header
  defines them in its \<^verbatim>\<open>_MSC_VER\<close> part.
  \<^verbatim>\<open>construct(U* p, Args&&... args) { ::new((void*) p) U(std::forward<Args>(args)...); }\<close>
\<close>

definition construct ::
  "('a, 's) cpp_type \<Rightarrow> addr \<Rightarrow> 'a \<Rightarrow> ('v, 's) world \<Rightarrow> exn option \<times> ('v, 's) world" where
  "construct U p args w =
     (case constructor U args p (host w) of
        (r, s) \<Rightarrow> (r, w\<lparr>host := s, trace := trace w @ [Construct p]\<rparr>))"

text \<open>\<^verbatim>\<open>destroy(U* p) { p->~U(); }\<close>\<close>

definition destroy :: "('a, 's) cpp_type \<Rightarrow> addr \<Rightarrow> ('v, 's) world \<Rightarrow> ('v, 's) world" where
  "destroy U p w = w\<lparr>host := destructor U p (host w), trace := trace w @ [Destroy p]\<rparr>"

section \<open>New, Delete, AllocateUnique\<close>

text \<open>
  \<^verbatim>\<open>allocate(1)\<close> is outside the \<^verbatim>\<open>try\<close> block; the handler \<^verbatim>\<open>catch (...)\<close> takes every
  exception of \<^verbatim>\<open>construct\<close>, deallocates and rethrows it.
\<close>

definition New ::
  "('v, 's) host_env \<Rightarrow> ('a, 's) cpp_type \<Rightarrow> Memory \<Rightarrow> 'a \<Rightarrow> ('v, 's) world \<Rightarrow> (exn + addr) \<times> ('v, 's) world" where
  "New H T memory args w =
     (let alloc = Allocator_ctor T memory in
      case allocate H alloc 1 w of
        (Inl e, w1) \<Rightarrow> (Inl e, w1)
      | (Inr ptr, w1) \<Rightarrow>
          (case construct T ptr args w1 of
             (Some e, w2) \<Rightarrow> (Inl e, deallocate H alloc ptr 1 w2)
           | (None, w2) \<Rightarrow> (Inr ptr, w2)))"

definition Delete ::
  "('v, 's) host_env \<Rightarrow> ('a, 's) cpp_type \<Rightarrow> Memory \<Rightarrow> addr \<Rightarrow> ('v, 's) world \<Rightarrow> ('v, 's) world" where
  "Delete H T memory obj w =
     (let alloc = Allocator_ctor T memory in
      deallocate H alloc obj 1 (destroy T obj w))"

text \<open>
  \<^verbatim>\<open>std::unique_ptr<T, std::function<void(void*)>>\<close>: the owned pointer and the deleter.
\<close>

record ('v, 's) UniquePtr =
  ptr :: addr
  deleter :: "addr \<Rightarrow> ('v, 's) world \<Rightarrow> ('v, 's) world"

text \<open>
  The standard library's \<^verbatim>\<open>reset()\<close>, which is also what the destructor of the handle
  does: the stored pointer becomes null, and the deleter runs on the old pointer if
  that was not null.
\<close>

definition UniquePtr_reset :: "('v, 's) UniquePtr \<Rightarrow> ('v, 's) world \<Rightarrow> ('v, 's) UniquePtr \<times> ('v, 's) world" where
  "UniquePtr_reset u w =
     (let old = ptr u in
      (u\<lparr>ptr := nullptr\<rparr>, if old \<noteq> nullptr then deleter u old w else w))"

definition AllocateUnique ::
  "('v, 's) host_env \<Rightarrow> ('a, 's) cpp_type \<Rightarrow> Memory \<Rightarrow> 'a \<Rightarrow> ('v, 's) world
     \<Rightarrow> (exn + ('v, 's) UniquePtr) \<times> ('v, 's) world" where
  "AllocateUnique H T memory args w =
     (case New H T memory args w of
        (Inl e, w1) \<Rightarrow> (Inl e, w1)
      | (Inr p, w1) \<Rightarrow> (Inr \<lparr>ptr = p, deleter = (\<lambda>q. Delete H T memory q)\<rparr>, w1))"

section \<open>Logger\<close>

text \<open>
  \<^verbatim>\<open>m_debugLoggingEnabled\<close> is a \<^verbatim>\<open>std::shared_ptr<bool>\<close>: empty, or the address of a
  boolean cell that the pointer keeps alive.
\<close>

record Logger =
  m_component :: fmiComponent
  m_instanceName :: string
  m_fmiLogger :: addr
  m_debugLoggingEnabled :: "addr option"

definition Logger_ctor ::
  "fmiComponent \<Rightarrow> string \<Rightarrow> fmiCallbackFunctions \<Rightarrow> addr option \<Rightarrow> Logger" where
  "Logger_ctor component instanceName callbackFunctions debugLoggingEnabled =
     \<lparr>m_component = component, m_instanceName = instanceName,
      m_fmiLogger = logger callbackFunctions,
      m_debugLoggingEnabled = debugLoggingEnabled\<rparr>"

text \<open>
  \<^verbatim>\<open>c_str()\<close> of a \<^verbatim>\<open>String\<close>: the pointer to its characters, which the host reads as a C
  string, that is up to the first NUL character; a \<^verbatim>\<open>String\<close> may hold NUL characters.
\<close>

definition c_str :: "string \<Rightarrow> fmiString" where
  "c_str s = takeWhile (\<lambda>c. c \<noteq> CHR 0x00) s"

text \<open>
  \<^verbatim>\<open>m_fmiLogger(m_component, m_instanceName.c_str(), status, category, message, args...)\<close>
\<close>

definition Log ::
  "('v, 's) host_env \<Rightarrow> Logger \<Rightarrow> fmiStatus \<Rightarrow> fmiString \<Rightarrow> fmiString \<Rightarrow> 'v
     \<Rightarrow> ('v, 's) world \<Rightarrow> ('v, 's) world" where
  "Log H this status category message args w =
     w\<lparr>host := call_logger H (m_fmiLogger this) (m_component this)
                 (c_str (m_instanceName this)) status category message args (host w),
       trace := trace w @ [LoggerCall (m_fmiLogger this) (m_component this)
                 (c_str (m_instanceName this)) status category message args]\<rparr>"

text \<open>
  \<^verbatim>\<open>if (*m_debugLoggingEnabled) { Log(...); }\<close>: the read goes through the pointer with no
  test for null. Dereferencing an empty \<^verbatim>\<open>shared_ptr\<close> is undefined behaviour, the
  result \<open>None\<close>.
\<close>

definition DebugLog ::
  "('v, 's) host_env \<Rightarrow> Logger \<Rightarrow> fmiStatus \<Rightarrow> fmiString \<Rightarrow> fmiString \<Rightarrow> 'v
     \<Rightarrow> ('v, 's) world \<Rightarrow> ('v, 's) world option" where
  "DebugLog H this status category message args w =
     (case m_debugLoggingEnabled this of
        None \<Rightarrow> None
      | Some flag \<Rightarrow>
          if bools w flag then Some (Log H this status category message args w)
          else Some w)"

section \<open>A counting host\<close>

text \<open>
  A concrete environment on which the functions above can be run: it hands out
  consecutive addresses up to a limit, fails with null beyond it, and counts the calls
  of its free and logger functions; null is counted like any other argument of free.
\<close>

text \<open>The argument packs forwarded to its logger are lists of integers and strings.\<close>

datatype vararg = IntArg int | StrArg string

record counting =
  next_block :: addr
  limit :: addr
  frees :: nat
  logged :: nat
  alive :: nat

definition counting_host :: "(vararg list, counting) host_env" where
  "counting_host =
     \<lparr>call_allocate = (\<lambda>f nObj size' s.
         if next_block s < limit s then (next_block s, s\<lparr>next_block := next_block s + 1\<rparr>)
         else (nullptr, s)),
      call_free = (\<lambda>f p s. s\<lparr>frees := frees s + 1\<rparr>),
      call_logger = (\<lambda>f c n st cat msg args s. s\<lparr>logged := logged s + 1\<rparr>)\<rparr>"

definition counting_world :: "(vararg list, counting) world" where
  "counting_world =
     \<lparr>host = \<lparr>next_block = 100, limit = 102, frees = 0, logged = 0, alive = 0\<rparr>,
      bools = (\<lambda>a. a = 7),
      trace = []\<rparr>"

definition host_callbacks :: fmiCallbackFunctions where
  "host_callbacks = \<lparr>logger = 10, allocateMemory = 11, freeMemory = 12\<rparr>"

text \<open>
  Two model classes: \<open>fragile\<close>, whose constructor throws when its argument is \<open>True\<close>
  and otherwise counts the object as alive until the destructor runs, and \<open>node\<close>, whose
  constructor and destructor do nothing.
\<close>

definition fragile :: "(bool, counting) cpp_type" where
  "fragile =
     \<lparr>sizeof = 8,
      constructor = (\<lambda>fail p s.
         if fail then (Some (FatalError ''broken model''), s)
         else (None, s\<lparr>alive := alive s + 1\<rparr>)),
      destructor = (\<lambda>p s. s\<lparr>alive := alive s - 1\<rparr>)\<rparr>"

definition node :: "(unit, counting) cpp_type" where
  "node =
     \<lparr>sizeof = 24,
      constructor = (\<lambda>u p s. (None, s)),
      destructor = (\<lambda>p s. s)\<rparr>"

section \<open>Equality of memory handles and allocators\<close>

lemma Memory_eq_iff: "Memory_eq M N \<longleftrightarrow> M = N"
  by (cases M, cases N) (auto simp: Memory_eq_def)

text \<open>
  Claim C3. Two allocators compare equal exactly when their memory handles do; two
  memory handles compare equal exactly when the allocate pointers are the same and
  the free pointers are the same, which for a handle of these two members is equality
  of the handles; and \<^verbatim>\<open>!=\<close> is the negation of \<^verbatim>\<open>==\<close> for both.
\<close>

theorem Allocator_equality:
  "(Allocator_eq A B \<longleftrightarrow> Memory_eq (m_memory A) (m_memory B))
   \<and> (Memory_eq M N \<longleftrightarrow> m_alloc M = m_alloc N \<and> m_free M = m_free N)
   \<and> (Memory_eq M N \<longleftrightarrow> M = N)
   \<and> (Allocator_neq A B \<longleftrightarrow> \<not> Allocator_eq A B)
   \<and> (Memory_neq M N \<longleftrightarrow> \<not> Memory_eq M N)"
  by (simp add: Allocator_eq_def Allocator_neq_def Memory_neq_def Memory_eq_iff)
    (auto simp: Memory_eq_def)

text \<open>
  Claim C4. Building an \<^verbatim>\<open>Allocator<U>\<close> from an \<^verbatim>\<open>Allocator<T>\<close> changes the element type
  and nothing else: the memory handle is the original's, the rebound allocator
  compares equal to the original, in either order, and rebinding back to the original
  element type gives an allocator equal to the original.
\<close>

theorem Allocator_rebind_equal:
  "value_type (Allocator_rebind U A) = U
   \<and> m_memory (Allocator_rebind U A) = m_memory A
   \<and> Allocator_eq (Allocator_rebind U A) A
   \<and> Allocator_eq A (Allocator_rebind U A)
   \<and> \<not> Allocator_neq (Allocator_rebind U A) A
   \<and> Allocator_eq (Allocator_rebind (value_type A) (Allocator_rebind U A)) A"
  by (simp add: Allocator_rebind_def Allocator_eq_def Allocator_neq_def Memory_eq_def)

section \<open>Allocation and deallocation\<close>

lemma allocate_zero: "allocate H A 0 w = (Inr nullptr, w)"
  by (simp add: allocate_def)

lemma deallocate_zero: "deallocate H A p 0 w = w"
  by (simp add: deallocate_def)

lemma allocate_pos:
  assumes "0 < n"
    and "call_allocate H (m_alloc (m_memory A)) n (sizeof (value_type A)) (host w) = (m, s)"
  shows "allocate H A n w =
     (if m \<noteq> nullptr then Inr m else Inl bad_alloc,
      w\<lparr>host := s,
        trace := trace w @ [AllocateMemory (m_alloc (m_memory A)) n (sizeof (value_type A))]\<rparr>)"
  using assms by (simp add: allocate_def Alloc_def)

lemma deallocate_pos:
  "0 < n \<Longrightarrow> deallocate H A p n w =
     w\<lparr>host := call_free H (m_free (m_memory A)) p (host w),
       trace := trace w @ [FreeMemory (m_free (m_memory A)) p]\<rparr>"
  by (simp add: deallocate_def Free_def)

text \<open>
  Claim C2. \<^verbatim>\<open>allocate(0)\<close> returns null and leaves the world as it is, so the host is
  not called; \<^verbatim>\<open>deallocate(p, 0)\<close> leaves the world as it is; and \<^verbatim>\<open>allocate(n)\<close> for
  \<open>n > 0\<close> makes one call of the host's allocate function with \<open>n\<close> and \<^verbatim>\<open>sizeof(T)\<close>, and
  then returns the host's block when that is not null and throws \<^verbatim>\<open>std::bad_alloc\<close>
  when it is null: the block returned is the one the host gave for exactly this
  request, and there is no second call.
\<close>

theorem allocate_contract:
  "allocate H A 0 w = (Inr nullptr, w)
   \<and> deallocate H A p 0 w = w
   \<and> (0 < n \<longrightarrow>
        allocate H A n w =
          (case call_allocate H (m_alloc (m_memory A)) n (sizeof (value_type A)) (host w) of
             (m, s) \<Rightarrow>
               (if m \<noteq> nullptr then Inr m else Inl bad_alloc,
                w\<lparr>host := s,
                  trace := trace w @
                    [AllocateMemory (m_alloc (m_memory A)) n (sizeof (value_type A))]\<rparr>)))"
proof (intro conjI impI)
  show "allocate H A 0 w = (Inr nullptr, w)" by (rule allocate_zero)
  show "deallocate H A p 0 w = w" by (rule deallocate_zero)
next
  assume n: "0 < n"
  obtain m s where c:
    "call_allocate H (m_alloc (m_memory A)) n (sizeof (value_type A)) (host w) = (m, s)"
    by (cases "call_allocate H (m_alloc (m_memory A)) n (sizeof (value_type A)) (host w)")
  show "allocate H A n w =
          (case call_allocate H (m_alloc (m_memory A)) n (sizeof (value_type A)) (host w) of
             (m, s) \<Rightarrow>
               (if m \<noteq> nullptr then Inr m else Inl bad_alloc,
                w\<lparr>host := s,
                  trace := trace w @
                    [AllocateMemory (m_alloc (m_memory A)) n (sizeof (value_type A))]\<rparr>))"
    using allocate_pos [OF n c] by (simp add: c)
qed

text \<open>
  On the counting host: four nodes are granted as block 100 with one host call, and a
  request made when the host has nothing left throws \<^verbatim>\<open>std::bad_alloc\<close> after one host
  call.
\<close>

theorem allocate_contract_witness:
  "(0::nat) < 4
   \<and> allocate counting_host (Allocator_ctor node (Memory_ctor host_callbacks)) 4 counting_world =
       (Inr 100,
        counting_world\<lparr>host := (host counting_world)\<lparr>next_block := 101\<rparr>,
                       trace := [AllocateMemory 11 4 24]\<rparr>)
   \<and> allocate counting_host (Allocator_ctor node (Memory_ctor host_callbacks)) 4
         (counting_world\<lparr>host := (host counting_world)\<lparr>limit := 100\<rparr>\<rparr>) =
       (Inl bad_alloc,
        counting_world\<lparr>host := (host counting_world)\<lparr>limit := 100\<rparr>,
                       trace := [AllocateMemory 11 4 24]\<rparr>)"
  using
    allocate_contract [of counting_host "Allocator_ctor node (Memory_ctor host_callbacks)"
      counting_world nullptr 4]
    allocate_contract [of counting_host "Allocator_ctor node (Memory_ctor host_callbacks)"
      "counting_world\<lparr>host := (host counting_world)\<lparr>limit := 100\<rparr>\<rparr>" nullptr 4]
  by (simp add: counting_host_def counting_world_def Allocator_ctor_def Memory_ctor_def
      host_callbacks_def node_def)

section \<open>Construction and destruction of single objects\<close>


lemma New_constructed:
  assumes "call_allocate H (m_alloc memory) 1 (sizeof T) (host w) = (p, s1)"
    and "p \<noteq> nullptr"
    and "constructor T args p s1 = (None, s2)"
  shows "New H T memory args w =
     (Inr p,
      w\<lparr>host := s2,
        trace := trace w @ [AllocateMemory (m_alloc memory) 1 (sizeof T), Construct p]\<rparr>)"
  using assms
  by (simp add: New_def allocate_def Alloc_def Allocator_ctor_def construct_def)

lemma New_constructor_throws:
  assumes "call_allocate H (m_alloc memory) 1 (sizeof T) (host w) = (p, s1)"
    and "p \<noteq> nullptr"
    and "constructor T args p s1 = (Some e, s2)"
  shows "New H T memory args w =
     (Inl e,
      w\<lparr>host := call_free H (m_free memory) p s2,
        trace := trace w @
          [AllocateMemory (m_alloc memory) 1 (sizeof T), Construct p,
           FreeMemory (m_free memory) p]\<rparr>)"
  using assms
  by (simp add: New_def allocate_def Alloc_def Allocator_ctor_def construct_def
      deallocate_def Free_def)

lemma Delete_eq:
  "Delete H T memory obj w =
     w\<lparr>host := call_free H (m_free memory) obj (destructor T obj (host w)),
       trace := trace w @ [Destroy obj, FreeMemory (m_free memory) obj]\<rparr>"
  by (simp add: Delete_def destroy_def deallocate_def Free_def Allocator_ctor_def)

text \<open>
  Claim C1. Let the host grant the block \<open>p\<close> for the single element. If the
  constructor of \<open>T\<close> throws \<open>e\<close>, then \<open>New\<close> throws the same \<open>e\<close>, and what it did is: the
  allocation, the constructor run, and one call of the host's free function with
  \<open>p\<close>, through the free pointer of the memory handle, after the constructor and
  before the exception leaves; no destructor runs. If the constructor returns, \<open>New\<close>
  returns \<open>p\<close>, and what it did is the allocation and the constructor run, with no call
  of the host's free function.
\<close>

theorem New_exception_safety:
  assumes "call_allocate H (m_alloc memory) 1 (sizeof T) (host w) = (p, s1)"
    and "p \<noteq> nullptr"
    and "constructor T args p s1 = (r, s2)"
  shows "New H T memory args w =
     (case r of
        Some e \<Rightarrow>
          (Inl e,
           w\<lparr>host := call_free H (m_free memory) p s2,
             trace := trace w @
               [AllocateMemory (m_alloc memory) 1 (sizeof T), Construct p,
                FreeMemory (m_free memory) p]\<rparr>)
      | None \<Rightarrow>
          (Inr p,
           w\<lparr>host := s2,
             trace := trace w @
               [AllocateMemory (m_alloc memory) 1 (sizeof T), Construct p]\<rparr>))"
proof (cases r)
  case None
  with assms show ?thesis by (simp add: New_constructed)
next
  case (Some e)
  with assms show ?thesis by (simp add: New_constructor_throws)
qed

text \<open>
  On the counting host, with the class whose constructor throws on demand: the
  throwing construction frees block 100 once and passes the exception on, the
  successful one returns block 100 and frees nothing.
\<close>

theorem New_exception_safety_witness:
  "New counting_host fragile (Memory_ctor host_callbacks) True counting_world =
     (Inl (FatalError ''broken model''),
      counting_world\<lparr>host := (host counting_world)\<lparr>next_block := 101, frees := 1\<rparr>,
                     trace := [AllocateMemory 11 1 8, Construct 100, FreeMemory 12 100]\<rparr>)
   \<and> New counting_host fragile (Memory_ctor host_callbacks) False counting_world =
     (Inr 100,
      counting_world\<lparr>host := (host counting_world)\<lparr>next_block := 101, alive := 1\<rparr>,
                     trace := [AllocateMemory 11 1 8, Construct 100]\<rparr>)"
proof -
  let ?M = "Memory_ctor host_callbacks"
  let ?s1 = "(host counting_world)\<lparr>next_block := 101\<rparr>"
  have a: "call_allocate counting_host (m_alloc ?M) 1 (sizeof fragile) (host counting_world)
             = (100, ?s1)"
    by (simp add: counting_host_def counting_world_def)
  have nz: "(100::addr) \<noteq> nullptr" by simp
  have t: "constructor fragile True 100 ?s1 = (Some (FatalError ''broken model''), ?s1)"
    by (simp add: fragile_def)
  have f: "constructor fragile False 100 ?s1 = (None, ?s1\<lparr>alive := alive ?s1 + 1\<rparr>)"
    by (simp add: fragile_def)
  show ?thesis
    using New_exception_safety [OF a nz t] New_exception_safety [OF a nz f]
    by (simp add: counting_host_def counting_world_def Memory_ctor_def host_callbacks_def
        fragile_def)
qed

text \<open>
  Claim C6. \<open>Delete\<close> runs the destructor of the object once, then calls the host's free
  function once with the object's block, through the free pointer of the memory
  handle, and does nothing else; it returns a world for every input, so it has no
  failing outcome.
\<close>

theorem Delete_destroys_then_frees:
  "Delete H T memory obj w =
     w\<lparr>host := call_free H (m_free memory) obj (destructor T obj (host w)),
       trace := trace w @ [Destroy obj, FreeMemory (m_free memory) obj]\<rparr>
   \<and> trace (Delete H T memory obj w) =
       trace w @ [Destroy obj, FreeMemory (m_free memory) obj]
   \<and> host (Delete H T memory obj w) =
       call_free H (m_free memory) obj (destructor T obj (host w))"
  by (simp add: Delete_eq)

section \<open>The owning handle\<close>

lemma New_returns_nonnull:
  assumes "New H T memory args w = (Inr p, w1)"
  shows "p \<noteq> nullptr"
  using assms
  by (auto simp: New_def allocate_def Alloc_def Allocator_ctor_def
      split: prod.splits sum.splits option.splits if_splits)

lemma AllocateUnique_Inr:
  assumes "AllocateUnique H T memory args w = (Inr u, w1)"
  shows "New H T memory args w = (Inr (ptr u), w1) \<and> deleter u = (\<lambda>q. Delete H T memory q)"
  using assms
  by (auto simp: AllocateUnique_def split: prod.splits sum.splits)

text \<open>
  Claim C5. When \<open>AllocateUnique\<close> returns a handle, the handle holds the non-null
  pointer \<open>New\<close> returned and a deleter fixed at that moment: \<open>Delete\<close> for \<open>T\<close> through the
  memory handle passed in. Releasing the handle, in whatever world that happens, runs
  the destructor of the held object once and then calls the host's free function once
  with the object's block, through the free pointer of that memory handle. The handle
  holds null afterwards, so a second release does nothing.
\<close>

theorem AllocateUnique_release:
  assumes "AllocateUnique H T memory args w = (Inr u, w1)"
  shows "ptr u \<noteq> nullptr
   \<and> New H T memory args w = (Inr (ptr u), w1)
   \<and> deleter u = (\<lambda>q. Delete H T memory q)
   \<and> UniquePtr_reset u w' =
       (u\<lparr>ptr := nullptr\<rparr>,
        w'\<lparr>host := call_free H (m_free memory) (ptr u) (destructor T (ptr u) (host w')),
           trace := trace w' @ [Destroy (ptr u), FreeMemory (m_free memory) (ptr u)]\<rparr>)
   \<and> UniquePtr_reset (fst (UniquePtr_reset u w')) w'' = (fst (UniquePtr_reset u w'), w'')"
proof -
  from assms have n: "New H T memory args w = (Inr (ptr u), w1)"
    and d: "deleter u = (\<lambda>q. Delete H T memory q)"
    by (simp_all add: AllocateUnique_Inr)
  from n have nz: "ptr u \<noteq> nullptr" by (rule New_returns_nonnull)
  have r: "UniquePtr_reset u w' =
       (u\<lparr>ptr := nullptr\<rparr>,
        w'\<lparr>host := call_free H (m_free memory) (ptr u) (destructor T (ptr u) (host w')),
           trace := trace w' @ [Destroy (ptr u), FreeMemory (m_free memory) (ptr u)]\<rparr>)"
    using nz by (simp add: UniquePtr_reset_def Let_def d Delete_eq)
  have again: "UniquePtr_reset (fst (UniquePtr_reset u w')) w'' = (fst (UniquePtr_reset u w'), w'')"
    by (simp add: UniquePtr_reset_def Let_def)
  from nz n d r again show ?thesis by simp
qed

text \<open>
  On the counting host: the handle for a \<open>fragile\<close> object owns block 100; releasing it
  runs the destructor and frees block 100 once, and releasing it again changes nothing.
\<close>

theorem AllocateUnique_release_witness:
  "(case AllocateUnique counting_host fragile (Memory_ctor host_callbacks) False counting_world of
      (Inl e, w1) \<Rightarrow> False
    | (Inr u, w1) \<Rightarrow>
        ptr u = 100
        \<and> snd (UniquePtr_reset u w1) =
            counting_world\<lparr>host := (host counting_world)\<lparr>next_block := 101, frees := 1\<rparr>,
              trace := [AllocateMemory 11 1 8, Construct 100, Destroy 100, FreeMemory 12 100]\<rparr>
        \<and> snd (UniquePtr_reset (fst (UniquePtr_reset u w1)) (snd (UniquePtr_reset u w1))) =
            snd (UniquePtr_reset u w1))"
proof -
  let ?M = "Memory_ctor host_callbacks"
  let ?w1 = "counting_world\<lparr>host := (host counting_world)\<lparr>next_block := 101, alive := 1\<rparr>,
                     trace := [AllocateMemory 11 1 8, Construct 100]\<rparr>"
  let ?u = "\<lparr>ptr = 100, deleter = (\<lambda>q. Delete counting_host fragile ?M q)\<rparr>"
  have n: "New counting_host fragile ?M False counting_world = (Inr 100, ?w1)"
    by (simp add: New_def allocate_def Alloc_def Allocator_ctor_def construct_def
        counting_host_def counting_world_def Memory_ctor_def host_callbacks_def fragile_def)
  have a: "AllocateUnique counting_host fragile ?M False counting_world = (Inr ?u, ?w1)"
    by (simp add: AllocateUnique_def n)
  note r = AllocateUnique_release [OF a, of ?w1 "snd (UniquePtr_reset ?u ?w1)"]
  note released = r [THEN conjunct2, THEN conjunct2, THEN conjunct2, THEN conjunct1]
  note second = r [THEN conjunct2, THEN conjunct2, THEN conjunct2, THEN conjunct2]
  have p: "ptr ?u = 100" by simp
  have once: "snd (UniquePtr_reset ?u ?w1) =
      counting_world\<lparr>host := (host counting_world)\<lparr>next_block := 101, frees := 1\<rparr>,
        trace := [AllocateMemory 11 1 8, Construct 100, Destroy 100, FreeMemory 12 100]\<rparr>"
    unfolding released
    by (simp add: counting_host_def counting_world_def Memory_ctor_def host_callbacks_def
        fragile_def)
  have again:
    "snd (UniquePtr_reset (fst (UniquePtr_reset ?u ?w1)) (snd (UniquePtr_reset ?u ?w1))) =
       snd (UniquePtr_reset ?u ?w1)"
    using second by (simp only: snd_conv)
  show ?thesis
    unfolding a prod.case sum.case using p once again by (intro conjI)
qed

section \<open>Freeing through a memory handle\<close>

text \<open>
  Claim C8, as stated: freeing a null block through a memory handle has no effect. It
  fails on the counting host: \<open>Free\<close> has no test for null, the host's free function is
  called with the null block, and this host counts the call.
\<close>

theorem Free_null_counterexample:
  "frees (host counting_world) = 0
   \<and> frees (host (Free counting_host (Memory_ctor host_callbacks) nullptr counting_world)) = 1
   \<and> trace (Free counting_host (Memory_ctor host_callbacks) nullptr counting_world) =
       [FreeMemory 12 nullptr]
   \<and> Free counting_host (Memory_ctor host_callbacks) nullptr counting_world \<noteq> counting_world"
proof -
  have t: "trace (Free counting_host (Memory_ctor host_callbacks) nullptr counting_world) =
       [FreeMemory 12 nullptr]"
    by (simp add: Free_def counting_world_def Memory_ctor_def host_callbacks_def)
  have "trace counting_world = []" by (simp add: counting_world_def)
  with t have "Free counting_host (Memory_ctor host_callbacks) nullptr counting_world
      \<noteq> counting_world"
    by auto
  with t show ?thesis
    by (simp add: Free_def counting_host_def counting_world_def)
qed

text \<open>
  Claim C8, amended. \<open>Free\<close> has no failing outcome and makes one call of the host's
  free function with the block it is given, null or not. A block that \<open>Alloc\<close> returned
  on one handle is released through an equal handle by the same host function. Freeing
  null leaves the host's state as it is if and only if the host's own free function
  does so.
\<close>

theorem Free_forwards:
  "trace (Free H M p w) = trace w @ [FreeMemory (m_free M) p]
   \<and> host (Free H M p w) = call_free H (m_free M) p (host w)
   \<and> bools (Free H M p w) = bools w
   \<and> (Memory_eq M N \<longrightarrow> Free H N p w = Free H M p w)
   \<and> (Memory_eq M N \<and> Alloc H M n k w = (q, w1) \<longrightarrow>
        trace (Free H N q w1) =
          trace w @ [AllocateMemory (m_alloc M) n k, FreeMemory (m_free M) q])
   \<and> (host (Free H M nullptr w) = host w \<longleftrightarrow> call_free H (m_free M) nullptr (host w) = host w)"
proof (intro conjI impI)
  show "trace (Free H M p w) = trace w @ [FreeMemory (m_free M) p]"
    and "host (Free H M p w) = call_free H (m_free M) p (host w)"
    and "bools (Free H M p w) = bools w"
    and "host (Free H M nullptr w) = host w \<longleftrightarrow> call_free H (m_free M) nullptr (host w) = host w"
    by (simp_all add: Free_def)
next
  assume "Memory_eq M N"
  then show "Free H N p w = Free H M p w"
    by (simp add: Memory_eq_iff)
next
  assume "Memory_eq M N \<and> Alloc H M n k w = (q, w1)"
  then have "N = M" and "Alloc H M n k w = (q, w1)"
    by (auto simp: Memory_eq_iff)
  then show "trace (Free H N q w1) =
          trace w @ [AllocateMemory (m_alloc M) n k, FreeMemory (m_free M) q]"
    by (auto simp: Free_def Alloc_def split: prod.splits)
qed

text \<open>
  On the counting host: a block allocated through the handle made from the callbacks
  is freed through a second handle made from the same callbacks.
\<close>

theorem Free_forwards_witness:
  "Memory_eq (Memory_ctor host_callbacks) \<lparr>m_alloc = 11, m_free = 12\<rparr>
   \<and> Alloc counting_host (Memory_ctor host_callbacks) 4 8 counting_world =
       (100, counting_world\<lparr>host := (host counting_world)\<lparr>next_block := 101\<rparr>,
                           trace := [AllocateMemory 11 4 8]\<rparr>)
   \<and> trace (Free counting_host \<lparr>m_alloc = 11, m_free = 12\<rparr> 100
        (counting_world\<lparr>host := (host counting_world)\<lparr>next_block := 101\<rparr>,
                        trace := [AllocateMemory 11 4 8]\<rparr>)) =
       [AllocateMemory 11 4 8, FreeMemory 12 100]"
proof -
  let ?M = "Memory_ctor host_callbacks"
  let ?N = "\<lparr>m_alloc = 11, m_free = 12\<rparr>"
  let ?w1 = "counting_world\<lparr>host := (host counting_world)\<lparr>next_block := 101\<rparr>,
                           trace := [AllocateMemory 11 4 8]\<rparr>"
  have e: "Memory_eq ?M ?N"
    by (simp add: Memory_eq_def Memory_ctor_def host_callbacks_def)
  have a: "Alloc counting_host ?M 4 8 counting_world = (100, ?w1)"
    by (simp add: Alloc_def counting_host_def counting_world_def Memory_ctor_def
        host_callbacks_def)
  show ?thesis
    using e a Free_forwards [where H = counting_host and M = ?M and N = ?N and n = 4 and k = 8
        and w = counting_world and q = 100 and ?w1.0 = ?w1]
    by (simp add: counting_world_def Memory_ctor_def host_callbacks_def)
qed

section \<open>Logging\<close>

lemma c_str_no_NUL: "CHR 0x00 \<notin> set s \<Longrightarrow> c_str s = s"
  by (auto simp: c_str_def)

lemma c_str_NUL: "c_str (s @ CHR 0x00 # t) = c_str s"
  by (induction s) (simp_all add: c_str_def)

lemma Log_trace:
  "trace (Log H L status category message args w) =
     trace w @ [LoggerCall (m_fmiLogger L) (m_component L) (c_str (m_instanceName L))
                  status category message args]"
  by (simp add: Log_def)

lemma Log_host:
  "host (Log H L status category message args w) =
     call_logger H (m_fmiLogger L) (m_component L) (c_str (m_instanceName L))
       status category message args (host w)"
  by (simp add: Log_def)

lemma DebugLog_enabled:
  "m_debugLoggingEnabled L = Some flag \<Longrightarrow> bools w flag \<Longrightarrow>
     DebugLog H L status category message args w =
       Some (Log H L status category message args w)"
  by (simp add: DebugLog_def)

lemma DebugLog_disabled:
  "m_debugLoggingEnabled L = Some flag \<Longrightarrow> \<not> bools w flag \<Longrightarrow>
     DebugLog H L status category message args w = Some w"
  by (simp add: DebugLog_def)

text \<open>
  Claim C7. \<open>Log\<close> adds one call of the host's logger to the calls made, with the
  component, the instance name as the C string \<^verbatim>\<open>c_str()\<close> gives (the name itself when
  it holds no NUL character), the status, the category, the message and the arguments;
  it does so whatever the flag pointer of the logger and whatever the boolean cells
  hold, and it leaves the cells as they are. \<open>DebugLog\<close> on a logger whose flag pointer
  refers to a cell is \<open>Log\<close> when the cell reads true at the call, and leaves the world
  untouched, so makes no host call, when it reads false.
\<close>

theorem Logger_forwarding:
  "trace (Log H L status category message args w) =
     trace w @ [LoggerCall (m_fmiLogger L) (m_component L) (c_str (m_instanceName L))
                  status category message args]
   \<and> host (Log H L status category message args w) =
       call_logger H (m_fmiLogger L) (m_component L) (c_str (m_instanceName L))
         status category message args (host w)
   \<and> (CHR 0x00 \<notin> set (m_instanceName L) \<longrightarrow> c_str (m_instanceName L) = m_instanceName L)
   \<and> bools (Log H L status category message args w) = bools w
   \<and> Log H (L\<lparr>m_debugLoggingEnabled := d\<rparr>) status category message args (w\<lparr>bools := b\<rparr>) =
       (Log H L status category message args w)\<lparr>bools := b\<rparr>
   \<and> (m_debugLoggingEnabled L = Some flag \<and> bools w flag \<longrightarrow>
        DebugLog H L status category message args w =
          Some (Log H L status category message args w))
   \<and> (m_debugLoggingEnabled L = Some flag \<and> \<not> bools w flag \<longrightarrow>
        DebugLog H L status category message args w = Some w)"
proof (intro conjI impI)
  show "trace (Log H L status category message args w) =
     trace w @ [LoggerCall (m_fmiLogger L) (m_component L) (c_str (m_instanceName L))
                  status category message args]"
    by (rule Log_trace)
  show "host (Log H L status category message args w) =
       call_logger H (m_fmiLogger L) (m_component L) (c_str (m_instanceName L))
         status category message args (host w)"
    by (rule Log_host)
  show "bools (Log H L status category message args w) = bools w"
    by (simp add: Log_def)
  show "Log H (L\<lparr>m_debugLoggingEnabled := d\<rparr>) status category message args (w\<lparr>bools := b\<rparr>) =
       (Log H L status category message args w)\<lparr>bools := b\<rparr>"
    by (simp add: Log_def)
next
  assume "CHR 0x00 \<notin> set (m_instanceName L)"
  then show "c_str (m_instanceName L) = m_instanceName L"
    by (rule c_str_no_NUL)
next
  assume "m_debugLoggingEnabled L = Some flag \<and> bools w flag"
  then show "DebugLog H L status category message args w =
          Some (Log H L status category message args w)"
    by (simp add: DebugLog_enabled)
next
  assume "m_debugLoggingEnabled L = Some flag \<and> \<not> bools w flag"
  then show "DebugLog H L status category message args w = Some w"
    by (simp add: DebugLog_disabled)
qed

text \<open>
  On the counting host, for a logger whose flag is cell 7: with the cell false a debug
  message reaches the host zero times, with the cell true the same message reaches it
  once, under the instance name. A logger whose instance name holds a NUL character
  forwards the characters before it.
\<close>

theorem Logger_forwarding_witness:
  "m_debugLoggingEnabled (Logger_ctor 1 ''instance'' host_callbacks (Some 7)) = Some 7
   \<and> \<not> bools (counting_world\<lparr>bools := (\<lambda>a. False)\<rparr>) 7
   \<and> DebugLog counting_host (Logger_ctor 1 ''instance'' host_callbacks (Some 7))
        0 ''log'' ''step %d'' [IntArg 3] (counting_world\<lparr>bools := (\<lambda>a. False)\<rparr>) =
       Some (counting_world\<lparr>bools := (\<lambda>a. False)\<rparr>)
   \<and> bools counting_world 7
   \<and> DebugLog counting_host (Logger_ctor 1 ''instance'' host_callbacks (Some 7))
        0 ''log'' ''step %d'' [IntArg 3] counting_world =
       Some (counting_world\<lparr>host := (host counting_world)\<lparr>logged := 1\<rparr>,
               trace := [LoggerCall 10 1 ''instance'' 0 ''log'' ''step %d'' [IntArg 3]]\<rparr>)
   \<and> trace (Log counting_host
        (Logger_ctor 1 [CHR ''a'', CHR 0x00, CHR ''b''] host_callbacks None)
        0 ''log'' ''step %d'' [IntArg 3] counting_world) =
       [LoggerCall 10 1 ''a'' 0 ''log'' ''step %d'' [IntArg 3]]"
proof -
  let ?L = "Logger_ctor 1 ''instance'' host_callbacks (Some 7)"
  let ?N = "Logger_ctor 1 [CHR ''a'', CHR 0x00, CHR ''b''] host_callbacks None"
  let ?off = "counting_world\<lparr>bools := (\<lambda>a. False)\<rparr>"
  have fl: "m_debugLoggingEnabled ?L = Some 7"
    by (simp add: Logger_ctor_def)
  have off: "\<not> bools ?off 7" by simp
  have on: "bools counting_world 7" by (simp add: counting_world_def)
  note at_off = Logger_forwarding [where L = ?L and flag = 7 and w = ?off and H = counting_host
      and status = 0 and category = "''log''" and message = "''step %d''" and args = "[IntArg 3]"]
  note at_on = Logger_forwarding [where L = ?L and flag = 7 and w = counting_world
      and H = counting_host
      and status = 0 and category = "''log''" and message = "''step %d''" and args = "[IntArg 3]"]
  note at_N = Logger_forwarding [where L = ?N and w = counting_world and H = counting_host
      and status = 0 and category = "''log''" and message = "''step %d''" and args = "[IntArg 3]"]
  note quiet = at_off [THEN conjunct2, THEN conjunct2, THEN conjunct2, THEN conjunct2,
      THEN conjunct2, THEN conjunct2, rule_format, OF conjI, OF fl off]
  note loud = at_on [THEN conjunct2, THEN conjunct2, THEN conjunct2, THEN conjunct2,
      THEN conjunct2, THEN conjunct1, rule_format, OF conjI, OF fl on]
  note name = at_on [THEN conjunct2, THEN conjunct2, THEN conjunct1, rule_format]
  have plain: "c_str (m_instanceName ?L) = ''instance''"
    using name by (simp add: Logger_ctor_def)
  have l: "Log counting_host ?L 0 ''log'' ''step %d'' [IntArg 3] counting_world =
       counting_world\<lparr>host := (host counting_world)\<lparr>logged := 1\<rparr>,
               trace := [LoggerCall 10 1 ''instance'' 0 ''log'' ''step %d'' [IntArg 3]]\<rparr>"
    unfolding Log_def plain
    by (simp add: Logger_ctor_def counting_host_def counting_world_def host_callbacks_def)
  have cut: "trace (Log counting_host ?N 0 ''log'' ''step %d'' [IntArg 3] counting_world) =
       [LoggerCall 10 1 ''a'' 0 ''log'' ''step %d'' [IntArg 3]]"
    unfolding at_N [THEN conjunct1]
    by (simp add: Logger_ctor_def c_str_def counting_world_def host_callbacks_def)
  from fl off on quiet loud l cut show ?thesis
    by (simp only: simp_thms)
qed

text \<open>
  Claim C10. The constructor of \<open>Logger\<close> stores the flag pointer it is given, null
  included. \<open>DebugLog\<close> reads through it before anything else: on a logger built with a
  null flag the call has no defined outcome, and for any logger the outcome is defined
  exactly when the flag pointer is not null.
\<close>

theorem DebugLog_needs_flag:
  "m_debugLoggingEnabled (Logger_ctor component instanceName callbackFunctions d) = d
   \<and> DebugLog H (Logger_ctor component instanceName callbackFunctions None)
        status category message args w = None
   \<and> (DebugLog H L status category message args w = None
        \<longleftrightarrow> m_debugLoggingEnabled L = None)"
  by (simp add: Logger_ctor_def DebugLog_def split: option.split)

section \<open>Fatal errors\<close>


lemma FatalError_not_base_of_std:
  "cppfmu_FatalError \<notin> set (bases std_bad_alloc)
   \<and> cppfmu_FatalError \<notin> set (bases std_runtime_error)
   \<and> cppfmu_FatalError \<notin> set (bases std_exception)
   \<and> cppfmu_FatalError \<notin> set (bases (user_class k))"
  by simp







end
